theory Spec2Isabelle
  imports Complex_Main "HOL-Library.Sublist"
begin

section \<open>JavaScript numbers\<close>

text \<open>
  The helper \<^verbatim>\<open>eval_helper.py\<close> ships JavaScript snippets to an editor and relays the
  reply. The arithmetic of the snippets is that of binary64: the result of every sum,
  difference, product and quotient is the real result rounded to the nearest number with
  a significand of 53 bits, a tie going to the even significand, with an exponent that
  stops at \<open>-1074\<close> at the small end and with the infinities beyond \<open>2 ^ 1024\<close>. A finite
  number is a \<^typ>\<open>real\<close> here, and the zero has no sign: the snippets never divide by a
  zero of their own making, and \<open>-0\<close> names the same property of an object as \<open>0\<close>.
  \<open>expo x\<close> is the integer part of the binary logarithm of a positive \<open>x\<close>.
\<close>

function expo :: "real \<Rightarrow> int" where
  "expo x = (if x \<le> 0 then 0
             else if 2 \<le> x then expo (x / 2) + 1
             else if x < 1 then expo (x * 2) - 1
             else 0)"
  by pat_completeness auto
termination
proof (relation "measure (\<lambda>x. if 1 \<le> x then nat \<lfloor>log 2 x\<rfloor> else nat \<lceil>- log 2 x\<rceil>)")
  show "wf (measure (\<lambda>x. if 1 \<le> x then nat \<lfloor>log 2 x\<rfloor> else nat \<lceil>- log 2 x\<rceil>))"
    by simp
next
  fix x :: real
  assume "\<not> x \<le> 0" "2 \<le> x"
  then have "log 2 (x / 2) = log 2 x - 1" by (simp add: log_divide)
  moreover have "1 \<le> log 2 x" using \<open>2 \<le> x\<close> by (simp add: le_log_iff)
  ultimately show "(x / 2, x) \<in> measure (\<lambda>x. if 1 \<le> x then nat \<lfloor>log 2 x\<rfloor> else nat \<lceil>- log 2 x\<rceil>)"
    using \<open>2 \<le> x\<close> by (simp add: nat_less_iff)
next
  fix x :: real
  assume pos: "\<not> x \<le> 0" and "\<not> 2 \<le> x" and lt: "x < 1"
  have l2: "log 2 (x * 2) = log 2 x + 1" using pos by (simp add: log_mult)
  have neg: "log 2 x < 0" using pos lt by simp
  show "(x * 2, x) \<in> measure (\<lambda>x. if 1 \<le> x then nat \<lfloor>log 2 x\<rfloor> else nat \<lceil>- log 2 x\<rceil>)"
  proof (cases "1 \<le> x * 2")
    case True
    then have "log 2 (x * 2) < 1" using pos lt by (simp add: log_less_iff)
    moreover have "0 \<le> log 2 (x * 2)" using True by simp
    ultimately have "\<lfloor>log 2 (x * 2)\<rfloor> = 0" by linarith
    moreover have "0 < \<lceil>- log 2 x\<rceil>" using neg by linarith
    ultimately show ?thesis using True lt by simp
  next
    case False
    then have "log 2 (x * 2) < 0" using pos by simp
    with l2 have "\<lceil>- log 2 (x * 2)\<rceil> = \<lceil>- log 2 x\<rceil> - 1" by (simp add: ceiling_diff_one) 
    moreover have "0 < \<lceil>- log 2 x\<rceil>" using neg by linarith
    ultimately show ?thesis using False lt by simp
  qed
qed

declare expo.simps [simp del]

definition round_even :: "real \<Rightarrow> int" where
  "round_even m =
     (let f = \<lfloor>m\<rfloor>; d = m - of_int f
      in if d < 1 / 2 then f else if 1 / 2 < d then f + 1 else if even f then f else f + 1)"

definition ulp_exp :: "real \<Rightarrow> int" where
  "ulp_exp x = max (expo \<bar>x\<bar> - 52) (- 1074)"

definition binary64 :: "real \<Rightarrow> real" where
  "binary64 x =
     (if x = 0 then 0
      else of_int (round_even (x / 2 powi ulp_exp x)) * 2 powi ulp_exp x)"

datatype number = Num real | PosInfinity | NegInfinity | NaN

definition to_number :: "real \<Rightarrow> number" where
  "to_number x =
     (let r = binary64 x
      in if r = 0 then Num 0
         else if 1024 \<le> expo \<bar>r\<bar> then (if 0 < r then PosInfinity else NegInfinity)
         else Num r)"

fun js_neg :: "number \<Rightarrow> number" where
  "js_neg (Num a) = Num (- a)"
| "js_neg PosInfinity = NegInfinity"
| "js_neg NegInfinity = PosInfinity"
| "js_neg NaN = NaN"

fun js_add :: "number \<Rightarrow> number \<Rightarrow> number" where
  "js_add (Num a) (Num b) = to_number (a + b)"
| "js_add NaN _ = NaN"
| "js_add _ NaN = NaN"
| "js_add PosInfinity NegInfinity = NaN"
| "js_add NegInfinity PosInfinity = NaN"
| "js_add PosInfinity _ = PosInfinity"
| "js_add _ PosInfinity = PosInfinity"
| "js_add NegInfinity _ = NegInfinity"
| "js_add _ NegInfinity = NegInfinity"

definition js_sub :: "number \<Rightarrow> number \<Rightarrow> number" where
  "js_sub a b = js_add a (js_neg b)"

fun js_sign :: "number \<Rightarrow> int" where
  "js_sign (Num a) = (if a < 0 then - 1 else if a = 0 then 0 else 1)"
| "js_sign PosInfinity = 1"
| "js_sign NegInfinity = - 1"
| "js_sign NaN = 0"

fun js_mul :: "number \<Rightarrow> number \<Rightarrow> number" where
  "js_mul (Num a) (Num b) = to_number (a * b)"
| "js_mul NaN _ = NaN"
| "js_mul _ NaN = NaN"
| "js_mul a b =
     (if js_sign a * js_sign b = 0 then NaN
      else if 0 < js_sign a * js_sign b then PosInfinity else NegInfinity)"

fun js_div :: "number \<Rightarrow> number \<Rightarrow> number" where
  "js_div (Num a) (Num b) =
     (if b = 0 then (if a = 0 then NaN else if 0 < a then PosInfinity else NegInfinity)
      else to_number (a / b))"
| "js_div NaN _ = NaN"
| "js_div _ NaN = NaN"
| "js_div (Num a) _ = Num 0"
| "js_div a (Num b) =
     (if (0 \<le> b) = (a = PosInfinity) then PosInfinity else NegInfinity)"
| "js_div _ _ = NaN"

fun js_lt :: "number \<Rightarrow> number \<Rightarrow> bool" where
  "js_lt (Num a) (Num b) = (a < b)"
| "js_lt NaN _ = False"
| "js_lt _ NaN = False"
| "js_lt _ NegInfinity = False"
| "js_lt PosInfinity _ = False"
| "js_lt _ _ = True"

definition js_gt :: "number \<Rightarrow> number \<Rightarrow> bool" where
  "js_gt a b = js_lt b a"

fun Math_round :: "number \<Rightarrow> number" where
  "Math_round (Num a) = Num (of_int (round a))"
| "Math_round a = a"

text \<open>
  A number that the editor takes as a coordinate or a size of a shape is finite; \<open>val\<close>
  reads the finite value, and is applied only where \<open>finite_all\<close> has been tested.
  A number that is binary64 and below the infinities is a double.
\<close>

fun val :: "number \<Rightarrow> real" where
  "val (Num r) = r"
| "val _ = 0"

fun finite_all :: "number list \<Rightarrow> bool" where
  "finite_all [] = True"
| "finite_all (Num r # rest) = finite_all rest"
| "finite_all (_ # rest) = False"

definition is_double :: "real \<Rightarrow> bool" where
  "is_double d \<longleftrightarrow> binary64 d = d \<and> \<bar>d\<bar> < 2 ^ 1024"

section \<open>Text spliced into a snippet\<close>

text \<open>
  The Python functions paste some of their string arguments between single quotes into
  the JavaScript text, unescaped. A string with no quote, backslash or line break stands
  there for itself. Any other string changes the program: what the text sent then does
  is not for this development to say, and is the parameter \<open>other\<close> of the snippet.
  \<open>syntax_error\<close> is what a text that is no program does: nothing runs.
\<close>

fun splice_safe :: "string \<Rightarrow> bool" where
  "splice_safe [] = True"
| "splice_safe (c # cs) =
     (c \<noteq> CHR 0x27 \<and> c \<noteq> CHR 0x5C \<and> c \<noteq> CHR 0x0A \<and> c \<noteq> CHR 0x0D \<and> splice_safe cs)"

section \<open>Canvas data\<close>

text \<open>
  The snippets are embedded as functions on the editor's page: the list of shapes in the
  order \<^verbatim>\<open>editor.getCurrentPageShapes()\<close> yields them. The coordinates and sizes of a
  shape on the page are finite numbers, as the editor's schema has it. The type tag of a
  shape is the constructor of its props, as the schema ties the two together;
  \<^verbatim>\<open>s.type === 'image'\<close> is the test \<open>is_ImageProps\<close>. A comparator \<open>a.y - b.y\<close> orders
  doubles as \<open>\<le>\<close> does, the difference of two different doubles never rounding to zero,
  and \<^verbatim>\<open>Array.prototype.sort\<close> is stable, as \<^const>\<open>sort_key\<close> is.
\<close>

type_synonym inline_node = "string option"
type_synonym block_node = "inline_node list option"
type_synonym rich_text = "block_node list"

datatype props =
    ImageProps (props_w: real) (props_h: real) (props_assetId: string)
  | GeoProps (props_w: real) (props_h: real) (props_geo: string) (props_fill: string)
      (props_color: string) (props_dash: string) (props_size: string)
  | TextProps (props_color: string) (props_size: string) (props_textAlign: string)
      (props_autoSize: bool)
  | ArrowProps (props_start: "real \<times> real") (props_end: "real \<times> real")
      (props_color: string) (props_arrowheadEnd: string)
  | OtherProps (props_kind: string)

record shape =
  shape_id :: string
  shape_x :: real
  shape_y :: real
  props :: props
  props_richText :: "rich_text option"

record box =
  box_x :: real
  box_y :: real
  box_w :: real
  box_h :: real

definition is_image :: "shape \<Rightarrow> bool" where
  "is_image s = is_ImageProps (props s)"

definition startsWith :: "string \<Rightarrow> string \<Rightarrow> bool" where
  "startsWith s p = prefix p s"

section \<open>detect\_annotations\<close>

text \<open>
  \<^verbatim>\<open>editor.getShapePageBounds\<close> belongs to the editor; it is the parameter \<open>bounds\<close>,
  from a shape id to the page bounds of that shape when it has any.
  \<^verbatim>\<open>editor.zoomToFit()\<close> moves the camera only and has no counterpart here.
\<close>

definition overlaps :: "box \<Rightarrow> box \<Rightarrow> bool" where
  "overlaps fb sb \<longleftrightarrow>
     js_lt (Num (box_x sb)) (js_add (Num (box_x fb)) (Num (box_w fb))) \<and>
     js_gt (js_add (Num (box_x sb)) (Num (box_w sb))) (Num (box_x fb)) \<and>
     js_lt (Num (box_y sb)) (js_add (Num (box_y fb)) (Num (box_h fb))) \<and>
     js_gt (js_add (Num (box_y sb)) (Num (box_h sb))) (Num (box_y fb))"

definition excludeIds :: "shape list \<Rightarrow> string list" where
  "excludeIds allShapes =
     map shape_id (filter (\<lambda>s. startsWith (shape_id s) ''shape:frame-'') allShapes) @
     map shape_id (filter (\<lambda>s. startsWith (shape_id s) ''shape:label-'') allShapes) @
     map shape_id (sort_key shape_y (filter is_image allShapes)) @
     map shape_id (filter (\<lambda>s. startsWith (shape_id s) ''shape:evolve-arrow-'') allShapes)"

definition is_annotation :: "(string \<Rightarrow> box option) \<Rightarrow> string list \<Rightarrow> box \<Rightarrow> shape \<Rightarrow> bool" where
  "is_annotation bounds excl fb s =
     (if shape_id s \<in> set excl then False
      else case bounds (shape_id s) of
             None \<Rightarrow> False
           | Some sb \<Rightarrow> overlaps fb sb)"

fun inline_texts :: "inline_node list \<Rightarrow> string list" where
  "inline_texts [] = []"
| "inline_texts (None # rest) = inline_texts rest"
| "inline_texts (Some t # rest) = (if t = [] then inline_texts rest else t # inline_texts rest)"

fun block_texts :: "block_node list \<Rightarrow> string list" where
  "block_texts [] = []"
| "block_texts (None # rest) = block_texts rest"
| "block_texts (Some inl # rest) = inline_texts inl @ block_texts rest"

fun shape_texts :: "shape list \<Rightarrow> string list" where
  "shape_texts [] = []"
| "shape_texts (s # rest) =
     (case props_richText s of
        None \<Rightarrow> shape_texts rest
      | Some blocks \<Rightarrow> block_texts blocks @ shape_texts rest)"

record annotation_info =
  candidateIndex :: nat
  imageId :: "string option"
  frameId :: string
  hasAnnotations :: bool
  annotationCount :: nat
  textAnnotations :: "string list"
  annotationIds :: "string list"

fun detect_loop ::
  "(string \<Rightarrow> box option) \<Rightarrow> shape list \<Rightarrow> string list \<Rightarrow> shape list \<Rightarrow> nat \<Rightarrow> shape list
     \<Rightarrow> annotation_info list" where
  "detect_loop bounds allShapes excl images i [] = []"
| "detect_loop bounds allShapes excl images i (frame # rest) =
     (case bounds (shape_id frame) of
        None \<Rightarrow> detect_loop bounds allShapes excl images (Suc i) rest
      | Some fb \<Rightarrow>
          (let annotations = filter (is_annotation bounds excl fb) allShapes
           in \<lparr> candidateIndex = i,
                imageId = (if i < length images then Some (shape_id (images ! i)) else None),
                frameId = shape_id frame,
                hasAnnotations = (length annotations > 0),
                annotationCount = length annotations,
                textAnnotations = shape_texts annotations,
                annotationIds = map shape_id annotations \<rparr>
              # detect_loop bounds allShapes excl images (Suc i) rest))"

definition detect_annotations_js :: "(string \<Rightarrow> box option) \<Rightarrow> shape list \<Rightarrow> annotation_info list" where
  "detect_annotations_js bounds allShapes =
     (let frames = filter (\<lambda>s. startsWith (shape_id s) ''shape:frame-'') allShapes;
          images = sort_key shape_y (filter is_image allShapes)
      in detect_loop bounds allShapes (excludeIds allShapes) images 0 frames)"

section \<open>The editor and the placement snippets\<close>

text \<open>
  The editor holds the shapes of the page and the assets. \<^verbatim>\<open>createShape\<close> and
  \<^verbatim>\<open>createAssets\<close> add the record they are given at the end; \<^verbatim>\<open>sendToBack\<close> changes
  the stacking order only, which no snippet reads, and has no counterpart. Loading the
  data URL into an \<^verbatim>\<open>Image\<close> either fails (the promise rejects and the snippet throws)
  or yields the natural size in pixels. The editor is taken to refuse a shape with an
  infinite coordinate or size, or one that is not a number: the snippet throws there,
  with what it stored before left in place.
\<close>

record asset =
  asset_id :: string
  asset_name :: string
  asset_src :: string
  asset_w :: nat
  asset_h :: nat
  asset_mimeType :: string
  asset_isAnimated :: bool

record editor =
  shapes :: "shape list"
  assets :: "asset list"

record loaded_image =
  naturalWidth :: nat
  naturalHeight :: nat

datatype js_error = ImageLoadError | NonFiniteNumber | TypeError | SyntaxError

type_synonym 'a snippet = "editor \<Rightarrow> (js_error + 'a) \<times> editor"

definition syntax_error :: "'a snippet" where
  "syntax_error ed = (Inl SyntaxError, ed)"

definition createShape :: "shape \<Rightarrow> editor \<Rightarrow> editor" where
  "createShape s ed = ed\<lparr> shapes := shapes ed @ [s] \<rparr>"

definition createAssets :: "asset list \<Rightarrow> editor \<Rightarrow> editor" where
  "createAssets as ed = ed\<lparr> assets := assets ed @ as \<rparr>"

subsection \<open>Numbers in identifiers\<close>

definition digit :: "nat \<Rightarrow> char" where
  "digit n = ''0123456789'' ! n"

function show_nat :: "nat \<Rightarrow> string" where
  "show_nat n = (if n < 10 then [digit n] else show_nat (n div 10) @ [digit (n mod 10)])"
  by pat_completeness auto
termination
  by (relation "measure id") auto

declare show_nat.simps [simp del]

definition show_int :: "int \<Rightarrow> string" where
  "show_int k = (if k < 0 then CHR ''-'' # show_nat (nat (- k)) else show_nat (nat k))"

subsection \<open>get\_images\<close>

record image_info =
  info_id :: string
  info_x :: real
  info_y :: real
  info_w :: real
  info_h :: real
  info_assetId :: string

definition info_of :: "shape \<Rightarrow> image_info" where
  "info_of s = \<lparr> info_id = shape_id s, info_x = shape_x s, info_y = shape_y s,
                 info_w = props_w (props s), info_h = props_h (props s),
                 info_assetId = props_assetId (props s) \<rparr>"

definition get_images_js :: "editor \<Rightarrow> image_info list" where
  "get_images_js ed = map info_of (sort_key shape_y (filter is_image (shapes ed)))"

subsection \<open>place\_image\<close>

text \<open>
  The display width is a Python integer, written in decimal into the text and read there
  as the nearest number; so are the padding, the top padding and the gap further down.
  The coordinates, when given, are written as Python writes a float and read back.
\<close>

fun maxBottom_loop :: "number \<Rightarrow> shape list \<Rightarrow> number" where
  "maxBottom_loop maxBottom [] = maxBottom"
| "maxBottom_loop maxBottom (s # rest) =
     (let bottom = js_add (Num (shape_y s)) (Num (props_h (props s)))
      in maxBottom_loop (if js_gt bottom maxBottom then bottom else maxBottom) rest)"

definition next_position :: "editor \<Rightarrow> number \<times> number" where
  "next_position ed =
     (let existing = filter is_image (shapes ed)
      in (Num 100,
          if length existing > 0 then js_add (maxBottom_loop (Num 0) existing) (Num 160)
          else Num 100))"

record placed =
  placed_shapeId :: string
  placed_w :: real
  placed_h :: real
  placed_yPos :: real
  placed_xPos :: real

definition place_image_js ::
  "placed snippet \<Rightarrow> string \<Rightarrow> loaded_image option \<Rightarrow> int \<Rightarrow> string \<Rightarrow> string
     \<Rightarrow> real option \<Rightarrow> real option \<Rightarrow> placed snippet" where
  "place_image_js other dataUrl loaded display_width sid_part asset_id_part x y ed =
     (if \<not> (splice_safe sid_part \<and> splice_safe asset_id_part) then other ed
      else case loaded of
        None \<Rightarrow> (Inl ImageLoadError, ed)
      | Some img \<Rightarrow>
          (let scale = js_div (to_number (of_int display_width)) (Num (real (naturalWidth img)));
               w = to_number (of_int display_width);
               h = Math_round (js_mul (Num (real (naturalHeight img))) scale);
               (xPos, yPos) = (case (x, y) of
                                 (Some xv, Some yv) \<Rightarrow> (to_number xv, to_number yv)
                               | _ \<Rightarrow> next_position ed);
               assetId = ''asset:'' @ asset_id_part;
               shapeId = ''shape:'' @ sid_part;
               ed1 = createAssets [\<lparr> asset_id = assetId, asset_name = shapeId,
                        asset_src = dataUrl, asset_w = naturalWidth img,
                        asset_h = naturalHeight img, asset_mimeType = ''image/png'',
                        asset_isAnimated = False \<rparr>] ed
           in if finite_all [xPos, yPos, w, h]
              then (Inr \<lparr> placed_shapeId = shapeId, placed_w = val w, placed_h = val h,
                          placed_yPos = val yPos, placed_xPos = val xPos \<rparr>,
                    createShape \<lparr> shape_id = shapeId, shape_x = val xPos, shape_y = val yPos,
                                  props = ImageProps (val w) (val h) assetId,
                                  props_richText = None \<rparr> ed1)
              else (Inl NonFiniteNumber, ed1)))"

subsection \<open>create\_frames\<close>

record framed =
  frameIds :: "string list"
  labelIds :: "string list"
  count :: nat

fun create_frames_loop ::
  "number \<Rightarrow> number \<Rightarrow> string \<Rightarrow> string \<Rightarrow> nat \<Rightarrow> shape list \<Rightarrow> string list \<times> string list \<times> editor
     \<Rightarrow> (js_error + string list \<times> string list) \<times> editor" where
  "create_frames_loop padding topPadding id_prefix iter_label i [] (fids, lids, ed) =
     (Inr (fids, lids), ed)"
| "create_frames_loop padding topPadding id_prefix iter_label i (img # rest) (fids, lids, ed) =
     (let frameId = ''shape:frame-'' @ id_prefix @ show_nat i;
          labelId = ''shape:label-'' @ id_prefix @ show_nat i;
          fx = js_sub (Num (shape_x img)) padding;
          fy = js_sub (Num (shape_y img)) topPadding;
          fw = js_add (Num (props_w (props img))) (js_mul padding (Num 2));
          fh = js_add (js_add (Num (props_h (props img))) topPadding) padding;
          lx = js_add (Num (shape_x img)) (js_div (Num (props_w (props img))) (Num 2));
          ly = js_add (js_sub (Num (shape_y img)) topPadding) (Num 8)
      in if \<not> finite_all [fx, fy, fw, fh] then (Inl NonFiniteNumber, ed)
         else
          (let ed1 = createShape \<lparr> shape_id = frameId, shape_x = val fx, shape_y = val fy,
                       props = GeoProps (val fw) (val fh)
                                 ''rectangle'' ''none'' ''grey'' ''solid'' ''s'',
                       props_richText = None \<rparr> ed
           in if \<not> finite_all [lx, ly] then (Inl NonFiniteNumber, ed1)
              else
               (let ed2 = createShape \<lparr> shape_id = labelId, shape_x = val lx, shape_y = val ly,
                            props = TextProps ''grey'' ''s'' ''middle'' True,
                            props_richText =
                              Some [Some [Some (''Candidate '' @ show_nat (i + 1) @ iter_label)]] \<rparr>
                            ed1
                in create_frames_loop padding topPadding id_prefix iter_label (Suc i) rest
                     (fids @ [frameId], lids @ [labelId], ed2))))"

definition create_frames_js ::
  "framed snippet \<Rightarrow> int \<Rightarrow> int \<Rightarrow> string \<Rightarrow> string \<Rightarrow> framed snippet" where
  "create_frames_js other padding top_padding id_prefix iter_label ed =
     (if \<not> (splice_safe id_prefix \<and> splice_safe iter_label) then other ed
      else
       (let images = sort_key shape_y (filter is_image (shapes ed))
        in case create_frames_loop (to_number (of_int padding)) (to_number (of_int top_padding))
                  id_prefix iter_label 0 images ([], [], ed) of
             (Inl e, ed') \<Rightarrow> (Inl e, ed')
           | (Inr (fids, lids), ed') \<Rightarrow>
               (Inr \<lparr> frameIds = fids, labelIds = lids, count = length images \<rparr>, ed')))"

subsection \<open>place\_evolved\_image\<close>

text \<open>
  The two calls of \<^verbatim>\<open>Math.random().toString(36).substr(2, 6)\<close> are the parameters
  \<open>rand1\<close> and \<open>rand2\<close>. The label text holds an em dash, three bytes in UTF-8. The
  iteration and the candidate number are Python integers: their digits are safe between
  quotes.
\<close>

definition em_dash :: string where
  "em_dash = [CHR 0xE2, CHR 0x80, CHR 0x94]"

record evolved_info =
  newShapeId :: string
  newX :: real
  newY :: real
  displayW :: real
  displayH :: real

datatype evolved = NotFound string | Evolved evolved_info

definition place_evolved_image_js ::
  "evolved snippet \<Rightarrow> string \<Rightarrow> loaded_image option \<Rightarrow> string \<Rightarrow> int \<Rightarrow> int \<Rightarrow> int \<Rightarrow> string
     \<Rightarrow> string \<Rightarrow> evolved snippet" where
  "place_evolved_image_js other dataUrl loaded orig_shape_id iteration candidate_num gap
       rand1 rand2 ed =
     (if \<not> splice_safe orig_shape_id then other ed
      else
       (let i = candidate_num - 1;
            allImages = filter is_image (shapes ed)
        in case find (\<lambda>s. shape_id s = orig_shape_id) allImages of
             None \<Rightarrow> (Inr (NotFound (''original not found: '' @ orig_shape_id)), ed)
           | Some orig \<Rightarrow>
              (case loaded of
                 None \<Rightarrow> (Inl ImageLoadError, ed)
               | Some img \<Rightarrow>
                  (let dW = Num (props_w (props orig));
                       scale = js_div dW (Num (real (naturalWidth img)));
                       dH = Math_round (js_mul (Num (real (naturalHeight img))) scale);
                       nX = js_add (js_add (Num (shape_x orig)) (Num (props_w (props orig))))
                              (to_number (of_int gap));
                       nY = Num (shape_y orig);
                       tag = ''evolved-'' @ show_int iteration @ ''-'' @ show_int candidate_num;
                       nShapeId = ''shape:'' @ tag @ ''-'' @ rand1;
                       nAssetId = ''asset:'' @ tag @ ''-'' @ rand2;
                       ed1 = createAssets [\<lparr> asset_id = nAssetId, asset_name = tag,
                                asset_src = dataUrl, asset_w = naturalWidth img,
                                asset_h = naturalHeight img, asset_mimeType = ''image/png'',
                                asset_isAnimated = False \<rparr>] ed
                   in if \<not> finite_all [nX, nY, dW, dH] then (Inl NonFiniteNumber, ed1)
                      else
                       (let ed2 = createShape \<lparr> shape_id = nShapeId, shape_x = val nX,
                                    shape_y = val nY,
                                    props = ImageProps (val dW) (val dH) nAssetId,
                                    props_richText = None \<rparr> ed1;
                            arrowX = js_add (Num (shape_x orig)) (Num (props_w (props orig)));
                            arrowY = js_add (Num (shape_y orig))
                                       (js_div (Num (props_h (props orig))) (Num 2));
                            endX = to_number (of_int (gap - 20))
                        in if \<not> finite_all [arrowX, arrowY, endX] then (Inl NonFiniteNumber, ed2)
                           else
                            (let ed3 = createShape \<lparr> shape_id =
                                           ''shape:evolve-arrow-'' @ show_int iteration @ ''-''
                                             @ show_int i,
                                         shape_x = val arrowX, shape_y = val arrowY,
                                         props = ArrowProps (0, 0) (val endX, 0) ''grey'' ''arrow'',
                                         props_richText =
                                           Some [Some [Some (''Iter '' @ show_int iteration)]] \<rparr> ed2;
                                 padding = Num 60;
                                 topPadding = Num 80;
                                 frameId = ''shape:frame-iter'' @ show_int iteration @ ''-''
                                             @ show_int i;
                                 labelId = ''shape:label-iter'' @ show_int iteration @ ''-''
                                             @ show_int i;
                                 fx = js_sub nX padding;
                                 fy = js_sub nY topPadding;
                                 fw = js_add dW (js_mul padding (Num 2));
                                 fh = js_add (js_add dH topPadding) padding;
                                 lx = js_add nX (js_div dW (Num 2));
                                 ly = js_add (js_sub nY topPadding) (Num 8)
                             in if \<not> finite_all [fx, fy, fw, fh] then (Inl NonFiniteNumber, ed3)
                                else
                                 (let ed4 = createShape \<lparr> shape_id = frameId, shape_x = val fx,
                                              shape_y = val fy,
                                              props = GeoProps (val fw) (val fh)
                                                ''rectangle'' ''none'' ''grey'' ''solid'' ''s'',
                                              props_richText = None \<rparr> ed3
                                  in if \<not> finite_all [lx, ly] then (Inl NonFiniteNumber, ed4)
                                     else
                                      (Inr (Evolved \<lparr> newShapeId = nShapeId, newX = val nX,
                                                      newY = val nY, displayW = val dW,
                                                      displayH = val dH \<rparr>),
                                       createShape \<lparr> shape_id = labelId, shape_x = val lx,
                                           shape_y = val ly,
                                           props = TextProps ''grey'' ''s'' ''middle'' True,
                                           props_richText =
                                             Some [Some [Some (''Candidate ''
                                               @ show_int candidate_num @ '' '' @ em_dash
                                               @ '' Iter '' @ show_int iteration)]] \<rparr> ed4))))))))"

subsection \<open>get\_latest\_images\<close>

text \<open>
  \<open>rows\<close> is a JavaScript object keyed by the row key, a number: an association list in
  the order the keys were created. \<^verbatim>\<open>Object.values\<close> lists the values of the keys that
  are array indices first, in ascending order, then the others in creation order.
\<close>

definition rowKey :: "real \<Rightarrow> number" where
  "rowKey y = js_mul (Math_round (js_div (Num y) (Num 50))) (Num 50)"

fun row_push :: "number \<Rightarrow> shape \<Rightarrow> (number \<times> shape list) list \<Rightarrow> (number \<times> shape list) list" where
  "row_push k img [] = [(k, [img])]"
| "row_push k img ((k', row) # rows) =
     (if k' = k then (k', row @ [img]) # rows else (k', row) # row_push k img rows)"

fun group_rows :: "(number \<times> shape list) list \<Rightarrow> shape list \<Rightarrow> (number \<times> shape list) list" where
  "group_rows rows [] = rows"
| "group_rows rows (img # rest) = group_rows (row_push (rowKey (shape_y img)) img rows) rest"

fun is_array_index :: "number \<Rightarrow> bool" where
  "is_array_index (Num r) \<longleftrightarrow> 0 \<le> r \<and> r < 4294967295 \<and> r = of_int \<lfloor>r\<rfloor>"
| "is_array_index _ \<longleftrightarrow> False"

definition object_values :: "(number \<times> 'v) list \<Rightarrow> 'v list" where
  "object_values rows =
     map snd (sort_key (\<lambda>kv. val (fst kv)) (filter (\<lambda>kv. is_array_index (fst kv)) rows)) @
     map snd (filter (\<lambda>kv. \<not> is_array_index (fst kv)) rows)"

fun latest_of_rows :: "shape list list \<Rightarrow> js_error + image_info list" where
  "latest_of_rows [] = Inr []"
| "latest_of_rows (row # rest) =
     (case sort_key (\<lambda>s. - shape_x s) row of
        [] \<Rightarrow> Inl TypeError
      | row0 # _ \<Rightarrow>
          (case latest_of_rows rest of
             Inl e \<Rightarrow> Inl e
           | Inr infos \<Rightarrow> Inr (info_of row0 # infos)))"

definition get_latest_images_js :: "editor \<Rightarrow> js_error + image_info list" where
  "get_latest_images_js ed =
     (let images = filter is_image (shapes ed);
          rows = group_rows [] images
      in case latest_of_rows (object_values rows) of
           Inl e \<Rightarrow> Inl e
         | Inr latest \<Rightarrow> Inr (sort_key info_y latest))"

section \<open>The Python side\<close>

text \<open>
  \<^verbatim>\<open>eval_code\<close> posts a snippet and parses the reply. Whatever happens inside its
  \<^verbatim>\<open>try\<close> block is the parameter \<open>post\<close>: the parsed reply, or the exception raised.
  \<^verbatim>\<open>except URLError\<close> catches \<^verbatim>\<open>URLError\<close> and its subclass \<^verbatim>\<open>HTTPError\<close>; any other
  exception leaves the function. The exceptions carry the text that \<^verbatim>\<open>str(e)\<close> gives.
  A reply is a dictionary with the optional keys \<^verbatim>\<open>success\<close>, \<^verbatim>\<open>result\<close> and \<^verbatim>\<open>error\<close>.
\<close>

datatype py_exception =
    URLError string
  | HTTPError string
  | TimeoutError string
  | ConnectionError string
  | JSONDecodeError string
  | FileNotFoundError string
  | KeyError string
  | OtherException string

fun is_URLError :: "py_exception \<Rightarrow> bool" where
  "is_URLError (URLError e) = True"
| "is_URLError (HTTPError e) = True"
| "is_URLError _ = False"

fun py_str :: "py_exception \<Rightarrow> string" where
  "py_str (URLError e) = e"
| "py_str (HTTPError e) = e"
| "py_str (TimeoutError e) = e"
| "py_str (ConnectionError e) = e"
| "py_str (JSONDecodeError e) = e"
| "py_str (FileNotFoundError e) = e"
| "py_str (KeyError e) = e"
| "py_str (OtherException e) = e"

datatype 'a fetched = Replied 'a | Raised py_exception

record 'a outcome =
  success :: "bool option"
  result :: "'a option"
  error :: "string option"

datatype json =
    JNull | JBool bool | JNumber real | JString string
  | JArray "json list" | JObject "(string \<times> json) list"

definition eval_code :: "('c \<Rightarrow> 'a outcome fetched) \<Rightarrow> 'c \<Rightarrow> py_exception + 'a outcome" where
  "eval_code post code =
     (case post code of
        Replied r \<Rightarrow> Inr r
      | Raised ex \<Rightarrow>
          if is_URLError ex
          then Inr \<lparr> success = Some False, result = None, error = Some (py_str ex) \<rparr>
          else Inl ex)"

definition health_check :: "json fetched \<Rightarrow> py_exception + json" where
  "health_check get =
     (case get of
        Replied r \<Rightarrow> Inr r
      | Raised ex \<Rightarrow>
          if is_URLError ex
          then Inr (JObject [(''status'', JString ''error''), (''error'', JString (py_str ex))])
          else Inl ex)"

text \<open>
  The three queries share their tail: the reply's \<^verbatim>\<open>result\<close> when \<^verbatim>\<open>success\<close> is
  truthy (a missing \<^verbatim>\<open>result\<close> key raises \<^verbatim>\<open>KeyError\<close>), the empty list otherwise.
  Their snippets are constant texts.
\<close>

definition get_images :: "(image_info list snippet \<Rightarrow> image_info list outcome fetched)
    \<Rightarrow> py_exception + image_info list" where
  "get_images post =
     (case eval_code post (\<lambda>ed. (Inr (get_images_js ed), ed)) of
        Inl ex \<Rightarrow> Inl ex
      | Inr r \<Rightarrow>
          if success r = Some True
          then (case result r of None \<Rightarrow> Inl (KeyError ''result'') | Some v \<Rightarrow> Inr v)
          else Inr [])"

definition detect_annotations :: "(string \<Rightarrow> box option)
    \<Rightarrow> (annotation_info list snippet \<Rightarrow> annotation_info list outcome fetched)
    \<Rightarrow> py_exception + annotation_info list" where
  "detect_annotations bounds post =
     (case eval_code post (\<lambda>ed. (Inr (detect_annotations_js bounds (shapes ed)), ed)) of
        Inl ex \<Rightarrow> Inl ex
      | Inr r \<Rightarrow>
          if success r = Some True
          then (case result r of None \<Rightarrow> Inl (KeyError ''result'') | Some v \<Rightarrow> Inr v)
          else Inr [])"

definition get_latest_images :: "(image_info list snippet \<Rightarrow> image_info list outcome fetched)
    \<Rightarrow> py_exception + image_info list" where
  "get_latest_images post =
     (case eval_code post (\<lambda>ed. (get_latest_images_js ed, ed)) of
        Inl ex \<Rightarrow> Inl ex
      | Inr r \<Rightarrow>
          if success r = Some True
          then (case result r of None \<Rightarrow> Inl (KeyError ''result'') | Some v \<Rightarrow> Inr v)
          else Inr [])"

text \<open>
  \<^verbatim>\<open>place_image\<close> and \<^verbatim>\<open>place_evolved_image\<close> read the image file first, which raises
  when the file cannot be read, and return what \<^verbatim>\<open>eval_code\<close> returns. \<open>file\<close> is the
  data URL made of the file's bytes when the file can be read; \<open>other\<close> is what the text
  sent does when a string put between its quotes is not safe there.
\<close>

definition place_image ::
  "string option \<Rightarrow> (placed snippet \<Rightarrow> placed outcome fetched) \<Rightarrow> placed snippet
     \<Rightarrow> loaded_image option \<Rightarrow> int
     \<Rightarrow> string \<Rightarrow> string \<Rightarrow> real option \<Rightarrow> real option \<Rightarrow> py_exception + placed outcome" where
  "place_image file post other loaded display_width sid_part asset_id_part x y =
     (case file of
        None \<Rightarrow> Inl (FileNotFoundError ''image_path'')
      | Some data_url \<Rightarrow>
          eval_code post
            (place_image_js other data_url loaded display_width sid_part asset_id_part x y))"

definition place_evolved_image ::
  "string option \<Rightarrow> (evolved snippet \<Rightarrow> evolved outcome fetched) \<Rightarrow> evolved snippet
     \<Rightarrow> loaded_image option \<Rightarrow> string
     \<Rightarrow> int \<Rightarrow> int \<Rightarrow> int \<Rightarrow> string \<Rightarrow> string \<Rightarrow> py_exception + evolved outcome" where
  "place_evolved_image file post other loaded orig_shape_id iteration candidate_num gap
       rand1 rand2 =
     (case file of
        None \<Rightarrow> Inl (FileNotFoundError ''image_path'')
      | Some data_url \<Rightarrow>
          eval_code post
            (place_evolved_image_js other data_url loaded orig_shape_id iteration candidate_num
               gap rand1 rand2))"

definition create_frames ::
  "(framed snippet \<Rightarrow> framed outcome fetched) \<Rightarrow> framed snippet \<Rightarrow> int \<Rightarrow> int \<Rightarrow> string \<Rightarrow> string
     \<Rightarrow> py_exception + framed outcome" where
  "create_frames post other padding top_padding id_prefix iter_label =
     eval_code post (create_frames_js other padding top_padding id_prefix iter_label)"

text \<open>The defaults of the Python parameters.\<close>

definition display_width_default :: int where "display_width_default = 400"
definition padding_default :: int where "padding_default = 60"
definition top_padding_default :: int where "top_padding_default = 80"
definition gap_default :: int where "gap_default = 120"

subsection \<open>The remote side\<close>

definition js_message :: "js_error \<Rightarrow> string" where
  "js_message e = (case e of ImageLoadError \<Rightarrow> ''image failed to load''
                   | NonFiniteNumber \<Rightarrow> ''expected a finite number''
                   | TypeError \<Rightarrow> ''cannot read properties of undefined''
                   | SyntaxError \<Rightarrow> ''invalid or unexpected token'')"

definition served :: "editor \<Rightarrow> 'a snippet \<Rightarrow> 'a outcome fetched" where
  \<comment> \<open>Modelled from the spec: the remote execution channel, which runs the code it is sent
      on the editor and replies \<open>{success: bool, result?: any, error?: string}\<close>.\<close>
  "served ed code =
     (case fst (code ed) of
        Inr v \<Rightarrow> Replied \<lparr> success = Some True, result = Some v, error = None \<rparr>
      | Inl e \<Rightarrow> Replied \<lparr> success = Some False, result = None, error = Some (js_message e) \<rparr>)"

definition unreachable :: "string \<Rightarrow> 'c \<Rightarrow> 'a outcome fetched" where
  "unreachable msg code = Raised (URLError msg)"

text \<open>
  The ways a request can fail in transport, and the exception with which \<^verbatim>\<open>urlopen\<close> or
  the reading of the reply leaves the \<^verbatim>\<open>try\<close> block. The standard library wraps in
  \<^verbatim>\<open>URLError\<close> what fails while the connection is made and the request is sent: a
  refused connection, an unknown host, a timeout while connecting. A status of 400 or
  more is an \<^verbatim>\<open>HTTPError\<close>. What fails once the request is sent is not wrapped: a
  timeout while waiting for the reply or reading it is a \<^verbatim>\<open>TimeoutError\<close>, a connection
  closed or reset by the remote is a \<^verbatim>\<open>ConnectionError\<close>, and a reply that is not JSON
  makes \<^verbatim>\<open>json.loads\<close> raise \<^verbatim>\<open>JSONDecodeError\<close>.
\<close>

datatype transport_failure =
    Refused
  | UnknownHost
  | ConnectTimeout
  | BadStatus
  | ReadTimeout
  | Disconnected
  | BadReply

fun urlopen_raises :: "transport_failure \<Rightarrow> py_exception" where
  "urlopen_raises Refused = URLError ''<urlopen error [Errno 111] Connection refused>''"
| "urlopen_raises UnknownHost =
     URLError ''<urlopen error [Errno -2] Name or service not known>''"
| "urlopen_raises ConnectTimeout = URLError ''<urlopen error timed out>''"
| "urlopen_raises BadStatus = HTTPError ''HTTP Error 500: Internal Server Error''"
| "urlopen_raises ReadTimeout = TimeoutError ''timed out''"
| "urlopen_raises Disconnected =
     ConnectionError ''Remote end closed connection without response''"
| "urlopen_raises BadReply = JSONDecodeError ''Expecting value: line 1 column 1 (char 0)''"

definition failing :: "transport_failure \<Rightarrow> 'c \<Rightarrow> 'a outcome fetched" where
  "failing f code = Raised (urlopen_raises f)"

fun reported :: "transport_failure \<Rightarrow> bool" where
  "reported Refused = True"
| "reported UnknownHost = True"
| "reported ConnectTimeout = True"
| "reported BadStatus = True"
| "reported _ = False"

section \<open>Notions of the specification\<close>

text \<open>
  The spec's notion of two regions with no coordinate overlap: along one axis the extent
  of one ends where, or before, the extent of the other begins. Regions that share only
  an edge are disjoint in this sense.
\<close>

definition disjoint_regions :: "box \<Rightarrow> box \<Rightarrow> bool" where
  "disjoint_regions a b \<longleftrightarrow>
     box_x a + box_w a \<le> box_x b \<or> box_x b + box_w b \<le> box_x a \<or>
     box_y a + box_h a \<le> box_y b \<or> box_y b + box_h b \<le> box_y a"

definition is_scaffold :: "shape \<Rightarrow> bool" where
  "is_scaffold s \<longleftrightarrow>
     prefix ''shape:frame-'' (shape_id s) \<or> prefix ''shape:label-'' (shape_id s) \<or>
     prefix ''shape:evolve-arrow-'' (shape_id s) \<or> is_image s"

definition bottom_of :: "shape \<Rightarrow> real" where
  "bottom_of s = shape_y s + props_h (props s)"

definition region_of :: "shape \<Rightarrow> box" where
  "region_of s = \<lparr> box_x = shape_x s, box_y = shape_y s,
                   box_w = props_w (props s), box_h = props_h (props s) \<rparr>"

text \<open>
  The spec's frame sizing rule, the same rule with each operation rounded to the nearest
  number as the snippets compute it, and what it is for one region to strictly contain
  another.
\<close>

definition frame_region :: "real \<Rightarrow> real \<Rightarrow> box \<Rightarrow> box" where
  "frame_region padding topPadding r =
     \<lparr> box_x = box_x r - padding, box_y = box_y r - topPadding,
       box_w = box_w r + 2 * padding, box_h = box_h r + topPadding + padding \<rparr>"

definition frame_region64 :: "real \<Rightarrow> real \<Rightarrow> box \<Rightarrow> box" where
  "frame_region64 padding topPadding r =
     \<lparr> box_x = binary64 (box_x r - padding), box_y = binary64 (box_y r - topPadding),
       box_w = binary64 (box_w r + binary64 (padding * 2)),
       box_h = binary64 (binary64 (box_h r + topPadding) + padding) \<rparr>"

definition strictly_contains :: "box \<Rightarrow> box \<Rightarrow> bool" where
  "strictly_contains f r \<longleftrightarrow>
     box_x f < box_x r \<and> box_y f < box_y r \<and>
     box_x r + box_w r < box_x f + box_w f \<and> box_y r + box_h r < box_y f + box_h f"

text \<open>
  A shape of moderate size and position: no coordinate beyond \<open>2\<^sup>5\<^sup>0\<close>, and a width
  and a height that are not negative. A shape on the integer grid.
\<close>

definition moderate :: "shape \<Rightarrow> bool" where
  "moderate s \<longleftrightarrow>
     \<bar>shape_x s\<bar> \<le> 2 ^ 50 \<and> \<bar>shape_y s\<bar> \<le> 2 ^ 50 \<and>
     0 \<le> props_w (props s) \<and> props_w (props s) \<le> 2 ^ 50 \<and>
     0 \<le> props_h (props s) \<and> props_h (props s) \<le> 2 ^ 50"

definition on_grid :: "shape \<Rightarrow> bool" where
  "on_grid s \<longleftrightarrow>
     shape_x s \<in> \<int> \<and> shape_y s \<in> \<int> \<and> props_w (props s) \<in> \<int> \<and> props_h (props s) \<in> \<int>"

text \<open>The closed rectangle of a region, as a set of points.\<close>

definition points :: "box \<Rightarrow> (real \<times> real) set" where
  "points b = {(px, py). box_x b \<le> px \<and> px \<le> box_x b + box_w b \<and>
                         box_y b \<le> py \<and> py \<le> box_y b + box_h b}"

text \<open>
  The entries of \<open>rows\<close> in the order in which \<^verbatim>\<open>Object.values\<close> visits them, and the
  element of a row that the snippet selects: the first after sorting by descending \<open>x\<close>.
\<close>

definition ordered_entries :: "(number \<times> 'v) list \<Rightarrow> (number \<times> 'v) list" where
  "ordered_entries rows =
     sort_key (\<lambda>kv. val (fst kv)) (filter (\<lambda>kv. is_array_index (fst kv)) rows) @
     filter (\<lambda>kv. \<not> is_array_index (fst kv)) rows"

definition pick :: "shape list \<Rightarrow> shape" where
  "pick row = hd (sort_key (\<lambda>s. - shape_x s) row)"

subsection \<open>Sample pages\<close>

definition sample_frame :: shape where
  "sample_frame = \<lparr> shape_id = ''shape:frame-0'', shape_x = 40, shape_y = 20,
       props = GeoProps 520 440 ''rectangle'' ''none'' ''grey'' ''solid'' ''s'',
       props_richText = None \<rparr>"

definition sample_image :: shape where
  "sample_image = \<lparr> shape_id = ''shape:seed-img-1'', shape_x = 100, shape_y = 100,
       props = ImageProps 400 300 ''asset:a1'', props_richText = None \<rparr>"

definition sample_note :: shape where
  "sample_note = \<lparr> shape_id = ''shape:note-1'', shape_x = 120, shape_y = 130,
       props = OtherProps ''note'', props_richText = Some [Some [Some ''warmer'']] \<rparr>"

definition sample_bounds :: "string \<Rightarrow> box option" where
  "sample_bounds i =
     (if i = ''shape:frame-0'' then Some \<lparr>box_x = 40, box_y = 20, box_w = 520, box_h = 440\<rparr>
      else if i = ''shape:seed-img-1''
        then Some \<lparr>box_x = 100, box_y = 100, box_w = 400, box_h = 300\<rparr>
      else if i = ''shape:note-1''
        then Some \<lparr>box_x = 120, box_y = 130, box_w = 200, box_h = 200\<rparr>
      else None)"

definition sample_page :: "shape list" where
  "sample_page = [sample_frame, sample_image, sample_note]"

definition sample_editor :: editor where
  "sample_editor = \<lparr> shapes = sample_page, assets = [] \<rparr>"

definition sample_high_image :: shape where
  "sample_high_image = \<lparr> shape_id = ''shape:seed-img-1'', shape_x = 100, shape_y = - 500,
       props = ImageProps 400 300 ''asset:a1'', props_richText = None \<rparr>"

text \<open>An image whose \<open>x\<close> is the number nearest to 8.92.\<close>

definition sample_offgrid_image :: shape where
  "sample_offgrid_image = \<lparr> shape_id = ''shape:seed-img-1'',
       shape_x = 5021513584518103 / 562949953421312, shape_y = 100,
       props = ImageProps 400 300 ''asset:a1'', props_richText = None \<rparr>"

definition sample_row_a :: shape where
  "sample_row_a = \<lparr> shape_id = ''shape:seed-img-1'', shape_x = 100, shape_y = 100,
       props = ImageProps 400 300 ''asset:a1'', props_richText = None \<rparr>"

definition sample_row_b :: shape where
  "sample_row_b = \<lparr> shape_id = ''shape:evolved-1-1-k3x9qa'', shape_x = 620, shape_y = 104,
       props = ImageProps 400 300 ''asset:a2'', props_richText = None \<rparr>"

definition sample_row_c :: shape where
  "sample_row_c = \<lparr> shape_id = ''shape:seed-img-2'', shape_x = 100, shape_y = 130,
       props = ImageProps 400 300 ''asset:a3'', props_richText = None \<rparr>"

definition sample_rows_editor :: editor where
  "sample_rows_editor = \<lparr> shapes = [sample_row_c, sample_row_a, sample_row_b], assets = [] \<rparr>"

section \<open>Properties of the numbers\<close>

lemma expo_bounds:
  "0 < x \<Longrightarrow> 2 powi (expo x) \<le> x \<and> x < 2 powi (expo x + 1)"
proof (induction x rule: expo.induct)
  case (1 x)
  show ?case
  proof (cases "2 \<le> x")
    case True
    with 1 have ih: "2 powi (expo (x / 2)) \<le> x / 2 \<and> x / 2 < 2 powi (expo (x / 2) + 1)"
      by simp
    have e: "expo x = expo (x / 2) + 1" using True 1(3) by (simp add: expo.simps [of x])
    from ih show ?thesis unfolding e by (simp add: power_int_add field_simps)
  next
    case False
    show ?thesis
    proof (cases "x < 1")
      case True
      with 1 False have ih: "2 powi (expo (x * 2)) \<le> x * 2 \<and> x * 2 < 2 powi (expo (x * 2) + 1)"
        by simp
      have e: "expo x = expo (x * 2) - 1" using True False 1(3) by (simp add: expo.simps [of x])
      from ih show ?thesis unfolding e by (simp add: power_int_diff power_int_add field_simps)
    next
      case False
      with \<open>\<not> 2 \<le> x\<close> 1(3) have "expo x = 0" by (simp add: expo.simps [of x])
      with False \<open>\<not> 2 \<le> x\<close> show ?thesis by simp
    qed
  qed
qed

lemma pow2_less_iff: "(2::real) powi a < 2 powi b \<longleftrightarrow> a < b"
proof
  assume "(2::real) powi a < 2 powi b"
  show "a < b"
  proof (rule ccontr)
    assume "\<not> a < b"
    then have "(2::real) powi b \<le> 2 powi a" by (intro power_int_increasing) auto
    with \<open>(2::real) powi a < 2 powi b\<close> show False by simp
  qed
next
  assume "a < b"
  then show "(2::real) powi a < 2 powi b" by (intro power_int_strict_increasing) auto
qed

lemma pow2_le_iff: "(2::real) powi a \<le> 2 powi b \<longleftrightarrow> a \<le> b"
  using pow2_less_iff [of b a] by (auto simp: not_less [symmetric])

lemma round_even_of_int [simp]: "round_even (of_int k) = k"
  by (simp add: round_even_def)

lemma round_even_le: "m \<le> of_int k \<Longrightarrow> round_even m \<le> k"
proof -
  assume a: "m \<le> of_int k"
  show ?thesis
  proof (cases "m = of_int \<lfloor>m\<rfloor>")
    case True
    then have "round_even m = \<lfloor>m\<rfloor>" by (metis round_even_of_int)
    with a show ?thesis by (simp add: floor_le_iff)
  next
    case False
    then have "of_int \<lfloor>m\<rfloor> < m" by (metis of_int_floor_le order_less_le)
    with a have "\<lfloor>m\<rfloor> < k" by linarith
    moreover have "round_even m \<le> \<lfloor>m\<rfloor> + 1" by (simp add: round_even_def Let_def)
    ultimately show ?thesis by linarith
  qed
qed

lemma round_even_ge: "of_int k \<le> m \<Longrightarrow> k \<le> round_even m"
proof -
  assume "of_int k \<le> m"
  then have "k \<le> \<lfloor>m\<rfloor>" by (simp add: le_floor_iff)
  moreover have "\<lfloor>m\<rfloor> \<le> round_even m" by (simp add: round_even_def Let_def)
  ultimately show ?thesis by linarith
qed

lemma round_even_minus: "round_even (- m) = - round_even m"
proof (cases "m = of_int \<lfloor>m\<rfloor>")
  case True
  then obtain k where "m = of_int k" by blast
  then show ?thesis by (metis of_int_minus round_even_of_int)
next
  case False
  then have lt: "of_int \<lfloor>m\<rfloor> < m" by (metis of_int_floor_le order_less_le)
  have fl: "\<lfloor>- m\<rfloor> = - \<lfloor>m\<rfloor> - 1"
    using lt by (intro floor_unique) (simp_all, linarith+)
  show ?thesis
    unfolding round_even_def Let_def fl
    by (auto simp: algebra_simps) 
qed

lemma binary64_minus: "binary64 (- x) = - binary64 x"
  by (simp add: binary64_def ulp_exp_def round_even_minus)

lemma expo_ge:
  assumes "2 powi E \<le> x"
  shows "E \<le> expo x"
proof -
  have pos: "0 < x" using assms by (smt (verit) zero_less_power_int)
  from expo_bounds [OF pos] assms have "(2::real) powi E < 2 powi (expo x + 1)" by linarith
  then have "E < expo x + 1" by (simp add: pow2_less_iff)
  then show ?thesis by simp
qed

lemma expo_lt:
  assumes "0 < x" "x < 2 powi E"
  shows "expo x < E"
proof -
  from expo_bounds [OF assms(1)] assms(2) have "(2::real) powi (expo x) < 2 powi E" by linarith
  then show ?thesis by (simp add: pow2_less_iff)
qed

lemma pow2_split: "u \<le> e \<Longrightarrow> (2::real) powi e = of_int (2 ^ nat (e - u)) * 2 powi u"
proof -
  assume le: "u \<le> e"
  define n where "n = nat (e - u)"
  have e: "e = int n + u" using le by (simp add: n_def)
  have "(2::real) powi (int n + u) = 2 powi (int n) * 2 powi u" by (simp add: power_int_add)
  also have "\<dots> = of_int (2 ^ n) * 2 powi u" by simp
  finally show ?thesis using le by (simp add: n_def)
qed

lemma binary64_multiple:
  assumes "x = of_int k * 2 powi e" and "ulp_exp x \<le> e"
  shows "binary64 x = x"
proof (cases "x = 0")
  case True
  then show ?thesis by (simp add: binary64_def)
next
  case False
  let ?u = "ulp_exp x"
  have "x = of_int (k * 2 ^ nat (e - ?u)) * 2 powi ?u"
    using assms pow2_split [OF assms(2)] by simp
  then have "x / 2 powi ?u = of_int (k * 2 ^ nat (e - ?u))"
    by (metis nonzero_mult_div_cancel_right power_int_eq_0_iff zero_neq_numeral)
  then have "round_even (x / 2 powi ?u) = k * 2 ^ nat (e - ?u)"
    by (simp only: round_even_of_int)
  with \<open>x = of_int (k * 2 ^ nat (e - ?u)) * 2 powi ?u\<close> False show ?thesis
    by (simp add: binary64_def)
qed

lemma binary64_grid:
  assumes fx: "binary64 d = d" and big: "2 powi E \<le> \<bar>d\<bar> \<or> E - 52 \<le> - 1074"
  shows "\<exists>j. d = of_int j * 2 powi (max (E - 52) (- 1074))"
proof (cases "d = 0")
  case True
  then show ?thesis by (intro exI [of _ 0]) simp
next
  case False
  let ?u = "max (E - 52) (- 1074)"
  have le: "?u \<le> ulp_exp d"
  proof (cases "2 powi E \<le> \<bar>d\<bar>")
    case True
    then have "E \<le> expo \<bar>d\<bar>" by (rule expo_ge)
    then show ?thesis by (simp add: ulp_exp_def)
  next
    case False
    with big have "E - 52 \<le> - 1074" by simp
    then show ?thesis by (simp add: ulp_exp_def)
  qed
  from fx False have "d = of_int (round_even (d / 2 powi ulp_exp d)) * 2 powi ulp_exp d"
    by (simp add: binary64_def)
  then have "d = of_int (round_even (d / 2 powi ulp_exp d) * 2 ^ nat (ulp_exp d - ?u)) * 2 powi ?u"
    using pow2_split [OF le] by simp
  then show ?thesis by blast
qed

lemma binary64_nonpos: "v \<le> 0 \<Longrightarrow> binary64 v \<le> 0"
proof -
  assume "v \<le> 0"
  then have "v / 2 powi ulp_exp v \<le> of_int 0" by (simp add: divide_le_0_iff)
  then have "round_even (v / 2 powi ulp_exp v) \<le> 0" by (rule round_even_le)
  then show ?thesis by (simp add: binary64_def mult_le_0_iff)
qed

lemma binary64_below:
  assumes fx: "binary64 d = d" and le: "v \<le> d"
  shows "binary64 v \<le> d"
proof -
  let ?E = "expo \<bar>v\<bar>"
  let ?u = "ulp_exp v"
  have upos: "(0::real) < 2 powi ?u" by simp
  have on_grid: "binary64 v \<le> d" if "d = of_int j * 2 powi ?u" for j
  proof (cases "v = 0")
    case True
    with le show ?thesis by (simp add: binary64_def)
  next
    case False
    from le that have "v / 2 powi ?u \<le> of_int j"
      using upos by (simp add: field_simps)
    then have "round_even (v / 2 powi ?u) \<le> j" by (rule round_even_le)
    then have "real_of_int (round_even (v / 2 powi ?u)) * 2 powi ?u \<le> real_of_int j * 2 powi ?u"
      using upos by simp
    with that False show ?thesis by (simp add: binary64_def)
  qed
  show ?thesis
  proof (cases "0 \<le> d \<and> v \<le> 0")
    case True
    then have "binary64 v \<le> 0" by (simp add: binary64_nonpos)
    with True show ?thesis by simp
  next
    case False
    note nz = this
    show ?thesis
    proof (cases "2 powi ?E \<le> \<bar>d\<bar> \<or> ?E - 52 \<le> - 1074")
      case True
      from binary64_grid [OF fx True] obtain j where "d = of_int j * 2 powi ?u"
        by (auto simp: ulp_exp_def)
      then show ?thesis by (rule on_grid)
    next
      case False
      then have small: "\<bar>d\<bar> < 2 powi ?E" and u: "?u = ?E - 52"
        by (auto simp: ulp_exp_def)
      have vne: "v \<noteq> 0" using nz le by auto
      have vb: "2 powi ?E \<le> \<bar>v\<bar>" using vne expo_bounds [of "\<bar>v\<bar>"] by simp
      have vneg: "v < 0"
      proof (rule ccontr)
        assume "\<not> v < 0"
        with vb small le have "\<bar>d\<bar> < d" by linarith
        then show False by linarith
      qed
      have edge: "- ((2::real) powi ?E) = real_of_int (- (2 ^ 52)) * 2 powi ?u"
        unfolding u using pow2_split [of "?E - 52" ?E] by simp
      have "v \<le> - (2 powi ?E)" using vb vneg by linarith
      then have "v / 2 powi ?u \<le> real_of_int (- (2 ^ 52))"
        using upos edge by (simp add: field_simps)
      then have "round_even (v / 2 powi ?u) \<le> - (2 ^ 52)" by (rule round_even_le)
      then have "real_of_int (round_even (v / 2 powi ?u)) * 2 powi ?u
                   \<le> real_of_int (- (2 ^ 52)) * 2 powi ?u"
        using upos by (simp del: of_int_minus of_int_power)
      then have "binary64 v \<le> - (2 powi ?E)"
        using vne edge by (simp add: binary64_def)
      with small show ?thesis by linarith
    qed
  qed
qed

lemma binary64_above:
  assumes fx: "binary64 d = d" and le: "d \<le> v"
  shows "d \<le> binary64 v"
proof -
  have "binary64 (- d) = - d" using fx by (simp add: binary64_minus)
  moreover have "- v \<le> - d" using le by simp
  ultimately have "binary64 (- v) \<le> - d" by (rule binary64_below)
  then show ?thesis by (simp add: binary64_minus)
qed

lemma binary64_int:
  assumes "\<bar>n\<bar> < 2 ^ 53"
  shows "binary64 (of_int n) = of_int n"
proof (rule binary64_multiple [of _ n 0])
  show "(of_int n :: real) = of_int n * 2 powi 0" by simp
  show "ulp_exp (of_int n) \<le> 0"
  proof (cases "n = 0")
    case True
    then show ?thesis by (simp add: ulp_exp_def expo.simps [of 0])
  next
    case False
    have "\<bar>of_int n :: real\<bar> < 2 powi 53"
      using assms by (metis of_int_abs of_int_less_numeral_power_cancel_iff power_int_numeral)
    moreover have "0 < \<bar>of_int n :: real\<bar>" using False by simp
    ultimately have "expo \<bar>of_int n\<bar> < 53" by (intro expo_lt)
    then show ?thesis by (simp add: ulp_exp_def)
  qed
qed

lemma expo_eqI: "2 powi E \<le> x \<Longrightarrow> x < 2 powi (E + 1) \<Longrightarrow> expo x = E"
proof -
  assume lo: "2 powi E \<le> x" and hi: "x < 2 powi (E + 1)"
  have pos: "0 < x" using lo by (smt (verit) zero_less_power_int)
  have "E \<le> expo x" using lo by (rule expo_ge)
  moreover have "expo x < E + 1" using pos hi by (rule expo_lt)
  ultimately show ?thesis by simp
qed

lemma binary64_eqI:
  assumes "2 powi E \<le> \<bar>x\<bar>" and "\<bar>x\<bar> < 2 powi (E + 1)"
    and "round_even (x / 2 powi (max (E - 52) (- 1074))) = k"
  shows "binary64 x = of_int k * 2 powi (max (E - 52) (- 1074))"
proof -
  have "expo \<bar>x\<bar> = E" using assms(1,2) by (rule expo_eqI)
  moreover have "x \<noteq> 0" using assms(1) by (smt (verit) zero_less_power_int abs_zero)
  ultimately show ?thesis using assms(3) by (simp add: binary64_def ulp_exp_def)
qed

lemma binary64_0 [simp]: "binary64 0 = 0"
  by (simp add: binary64_def)

lemma to_number_Num: "to_number v = Num r \<Longrightarrow> r = binary64 v"
  by (auto simp: to_number_def Let_def split: if_splits)

lemma to_number_finite:
  assumes "\<bar>binary64 v\<bar> < 2 powi 1024"
  shows "to_number v = Num (binary64 v)"
proof (cases "binary64 v = 0")
  case True
  then show ?thesis by (simp add: to_number_def)
next
  case False
  then have "0 < \<bar>binary64 v\<bar>" by simp
  then have "expo \<bar>binary64 v\<bar> < 1024" using assms by (rule expo_lt)
  with False show ?thesis by (simp add: to_number_def)
qed

lemma binary64_abs_le:
  assumes "binary64 B = B" and "\<bar>v\<bar> \<le> B"
  shows "\<bar>binary64 v\<bar> \<le> B"
proof -
  have "binary64 v \<le> B" using assms by (intro binary64_below) auto
  moreover have "binary64 (- B) = - B" using assms(1) by (simp add: binary64_minus)
  then have "- B \<le> binary64 v" using assms(2) by (intro binary64_above) auto
  ultimately show ?thesis by simp
qed

lemma binary64_pow2: "\<bar>v\<bar> \<le> 2 ^ 52 \<Longrightarrow> \<bar>binary64 v\<bar> \<le> 2 ^ 52"
proof -
  assume a: "\<bar>v\<bar> \<le> 2 ^ 52"
  have "binary64 (of_int (2 ^ 52)) = of_int (2 ^ 52)" by (rule binary64_int) simp
  then have "binary64 (2 ^ 52) = 2 ^ 52" by simp
  from binary64_abs_le [OF this] a show ?thesis by simp
qed

lemma to_number_bounded:
  assumes "\<bar>v\<bar> \<le> 2 ^ 52"
  shows "to_number v = Num (binary64 v)"
proof (rule to_number_finite)
  have "\<bar>binary64 v\<bar> \<le> 2 ^ 52" using assms by (rule binary64_pow2)
  also have "(2::real) ^ 52 < 2 powi 1024" by simp
  finally show "\<bar>binary64 v\<bar> < 2 powi 1024" .
qed

lemma to_number_int:
  assumes "\<bar>n\<bar> < 2 ^ 53"
  shows "to_number (of_int n) = Num (of_int n)"
proof -
  have b: "binary64 (of_int n) = of_int n" using assms by (rule binary64_int)
  have "\<bar>of_int n :: real\<bar> < 2 ^ 53"
    using assms by (metis of_int_abs of_int_less_numeral_power_cancel_iff)
  also have "(2::real) ^ 53 < 2 powi 1024" by simp
  finally have "\<bar>binary64 (of_int n)\<bar> < 2 powi 1024" by (simp only: b)
  from to_number_finite [OF this] b show ?thesis by simp
qed

lemma to_number_numeral [simp]:
  "(numeral n :: int) < 2 ^ 53 \<Longrightarrow> to_number (numeral n) = Num (numeral n)"
  using to_number_int [of "numeral n"] by simp

lemma to_number_neg_numeral [simp]:
  "(numeral n :: int) < 2 ^ 53 \<Longrightarrow> to_number (- numeral n) = Num (- numeral n)"
  using to_number_int [of "- numeral n"] by simp

lemma to_number_0 [simp]: "to_number 0 = Num 0"
  by (simp add: to_number_def)

lemma to_number_1 [simp]: "to_number 1 = Num 1"
  using to_number_int [of 1] by simp

lemma binary64_floor_ceiling:
  assumes "\<bar>v\<bar> \<le> 2 ^ 52"
  shows "of_int \<lfloor>v\<rfloor> \<le> binary64 v" and "binary64 v \<le> of_int \<lceil>v\<rceil>"
proof -
  have "\<bar>real_of_int \<lfloor>v\<rfloor>\<bar> < 2 ^ 53" and "\<bar>real_of_int \<lceil>v\<rceil>\<bar> < 2 ^ 53"
    using assms by (simp_all add: abs_less_iff abs_le_iff; linarith)+
  then have fl: "\<bar>\<lfloor>v\<rfloor>\<bar> < 2 ^ 53" and ce: "\<bar>\<lceil>v\<rceil>\<bar> < 2 ^ 53"
    by (metis of_int_abs of_int_less_numeral_power_cancel_iff)+
  show "of_int \<lfloor>v\<rfloor> \<le> binary64 v"
    by (rule binary64_above [OF binary64_int [OF fl]]) simp
  show "binary64 v \<le> of_int \<lceil>v\<rceil>"
    by (rule binary64_below [OF binary64_int [OF ce]]) simp
qed

lemma to_number_half [simp]: "to_number (1 / 2) = Num (1 / 2)"
proof -
  have "binary64 (1 / 2) = 1 / 2"
    using binary64_eqI [of "- 1" "1 / 2" "2 ^ 52"]
    by (simp add: power_int_minus field_simps round_even_def)
  moreover have "to_number (1 / 2) = Num (binary64 (1 / 2))"
    by (rule to_number_bounded) simp
  ultimately show ?thesis by simp
qed

lemma binary64_pow: "binary64 (2 ^ n) = 2 ^ n"
proof (rule binary64_multiple [where k = 1 and e = "int n"])
  show "(2::real) ^ n = of_int 1 * 2 powi int n" by simp
  have "expo \<bar>(2::real) ^ n\<bar> < int n + 1"
    by (rule expo_lt) (simp_all add: power_int_add)
  then show "ulp_exp (2 ^ n) \<le> int n" by (simp add: ulp_exp_def)
qed

lemma binary64_abs_pow: "\<bar>v\<bar> \<le> 2 ^ n \<Longrightarrow> \<bar>binary64 v\<bar> \<le> 2 ^ n"
  by (rule binary64_abs_le [OF binary64_pow])

lemma to_number_le:
  assumes "\<bar>v\<bar> \<le> 2 ^ 1023"
  shows "to_number v = Num (binary64 v)"
proof (rule to_number_finite)
  have "\<bar>binary64 v\<bar> \<le> 2 ^ 1023" using assms by (rule binary64_abs_pow)
  also have "(2::real) ^ 1023 < 2 powi 1024" by simp
  finally show "\<bar>binary64 v\<bar> < 2 powi 1024" .
qed

lemma js_add_Num: "\<bar>a + b\<bar> \<le> 2 ^ 1023 \<Longrightarrow> js_add (Num a) (Num b) = Num (binary64 (a + b))"
  by (simp add: to_number_le)

lemma js_sub_Num: "\<bar>a - b\<bar> \<le> 2 ^ 1023 \<Longrightarrow> js_sub (Num a) (Num b) = Num (binary64 (a - b))"
  by (simp add: js_sub_def to_number_le)

lemma js_mul_Num: "\<bar>a * b\<bar> \<le> 2 ^ 1023 \<Longrightarrow> js_mul (Num a) (Num b) = Num (binary64 (a * b))"
  by (simp add: to_number_le)

lemma js_div_Num:
  "b \<noteq> 0 \<Longrightarrow> \<bar>a / b\<bar> \<le> 2 ^ 1023 \<Longrightarrow> js_div (Num a) (Num b) = Num (binary64 (a / b))"
  by (simp add: to_number_le)

lemma binary64_numeral [simp]:
  "(numeral n :: int) < 2 ^ 53 \<Longrightarrow> binary64 (numeral n) = numeral n"
  using binary64_int [of "numeral n"] by simp

lemma round_bound: "\<bar>v\<bar> \<le> b \<Longrightarrow> \<bar>real_of_int (round v)\<bar> \<le> b + 1"
  unfolding round_def by linarith

lemma binary64_Ints: "v \<in> \<int> \<Longrightarrow> \<bar>v\<bar> \<le> 2 ^ 52 \<Longrightarrow> binary64 v = v"
proof -
  assume "v \<in> \<int>" and b: "\<bar>v\<bar> \<le> 2 ^ 52"
  then obtain n :: int where v: "v = of_int n" by (auto elim: Ints_cases)
  with b have "\<bar>real_of_int n\<bar> \<le> 2 ^ 52" by simp
  then have "\<bar>n\<bar> \<le> 2 ^ 52"
    by (metis of_int_abs of_int_le_iff of_int_numeral of_int_power)
  then have "\<bar>n\<bar> < 2 ^ 53" by simp
  then show ?thesis unfolding v by (rule binary64_int)
qed

lemma binary64_half_Ints:
  assumes "2 * v \<in> \<int>" and b: "\<bar>v\<bar> \<le> 2 ^ 51"
  shows "binary64 v = v"
proof -
  from assms(1) obtain n :: int where n: "2 * v = of_int n" by (auto elim: Ints_cases)
  then have v: "v = of_int n * 2 powi (- 1)" by (simp add: power_int_minus)
  show ?thesis
  proof (cases "v = 0")
    case True
    then show ?thesis by simp
  next
    case False
    have "\<bar>v\<bar> < 2 powi 52" using b by simp
    then have "expo \<bar>v\<bar> < 52" using False by (intro expo_lt) simp_all
    then have "ulp_exp v \<le> - 1" by (simp add: ulp_exp_def)
    with v show ?thesis by (rule binary64_multiple)
  qed
qed

lemma binary64_eval:
  assumes "2 powi E \<le> \<bar>x\<bar>" and "\<bar>x\<bar> < 2 powi (E + 1)"
    and "round_even (x / 2 powi (max (E - 52) (- 1074))) = k"
    and "r = of_int k * 2 powi (max (E - 52) (- 1074))"
  shows "binary64 x = r"
  using binary64_eqI [OF assms(1) assms(2) assms(3)] assms(4) by simp

section \<open>Properties of detect\_annotations\<close>

lemma scaffold_excluded:
  assumes "s \<in> set allShapes" and "is_scaffold s"
  shows "shape_id s \<in> set (excludeIds allShapes)"
  using assms by (auto simp: is_scaffold_def excludeIds_def startsWith_def)

lemma annotation_not_excluded:
  assumes "a \<in> set (filter (is_annotation bounds excl fb) allShapes)"
  shows "shape_id a \<notin> set excl"
  using assms by (auto simp: is_annotation_def split: if_splits)

lemma detect_loop_ids:
  assumes "r \<in> set (detect_loop bounds allShapes excl images i frames)"
  shows "set (annotationIds r) \<inter> set excl = {}"
  using assms
proof (induction frames arbitrary: i)
  case Nil
  then show ?case by simp
next
  case (Cons frame rest)
  show ?case
  proof (cases "bounds (shape_id frame)")
    case None
    with Cons show ?thesis by simp
  next
    case (Some fb)
    from Cons.prems Some
    consider (here) "annotationIds r = map shape_id (filter (is_annotation bounds excl fb) allShapes)"
      | (later) "r \<in> set (detect_loop bounds allShapes excl images (Suc i) rest)"
      by (auto simp: Let_def)
    then show ?thesis
    proof cases
      case here
      then show ?thesis
        by (auto simp: is_annotation_def split: if_splits)
    next
      case later
      then show ?thesis by (rule Cons.IH)
    qed
  qed
qed

text \<open>
  C3. In every entry that detect\_annotations returns, no shape of the page that is a
  frame, a label or an evolve arrow by its id, or an image by its type, is among the
  annotations.
\<close>

theorem scaffold_never_annotation:
  "\<forall>r \<in> set (detect_annotations_js bounds allShapes).
     \<forall>s \<in> set allShapes. is_scaffold s \<longrightarrow> shape_id s \<notin> set (annotationIds r)"
proof (intro ballI impI)
  fix r s
  assume r: "r \<in> set (detect_annotations_js bounds allShapes)"
    and s: "s \<in> set allShapes" "is_scaffold s"
  from r have "set (annotationIds r) \<inter> set (excludeIds allShapes) = {}"
    unfolding detect_annotations_js_def Let_def by (rule detect_loop_ids)
  moreover from s have "shape_id s \<in> set (excludeIds allShapes)"
    by (rule scaffold_excluded)
  ultimately show "shape_id s \<notin> set (annotationIds r)" by blast
qed

theorem scaffold_never_annotation_witness:
  "map annotationIds (detect_annotations_js sample_bounds sample_page) = [[''shape:note-1'']]
   \<and> sample_image \<in> set sample_page \<and> is_scaffold sample_image
   \<and> shape_id sample_image
       \<notin> set (annotationIds (hd (detect_annotations_js sample_bounds sample_page)))"
proof -
  have ev: "map annotationIds (detect_annotations_js sample_bounds sample_page)
              = [[''shape:note-1'']]"
    by code_simp
  then have ne: "hd (detect_annotations_js sample_bounds sample_page)
                   \<in> set (detect_annotations_js sample_bounds sample_page)"
    by (cases "detect_annotations_js sample_bounds sample_page") auto
  have mem: "sample_image \<in> set sample_page"
    by (simp add: sample_page_def)
  have sc: "is_scaffold sample_image"
    by (simp add: is_scaffold_def is_image_def sample_image_def)
  from scaffold_never_annotation [of sample_bounds sample_page] ne mem sc ev
  show ?thesis by blast
qed

section \<open>Properties of place\_image\<close>

lemma next_position_empty:
  "filter is_image (shapes ed) = [] \<Longrightarrow> next_position ed = (Num 100, Num 100)"
  by (simp add: next_position_def)

text \<open>
  C1. Without explicit coordinates and with no image on the page the position is
  \<open>(100, 100)\<close> (\<open>next_position_empty\<close>); with images, the running maximum starts at
  \<open>0\<close>, so \<open>y\<close> is \<open>160\<close> below the lowest lower edge only when that edge is not above
  \<open>0\<close>. One image at \<open>y = -500\<close> of height \<open>300\<close> has its
  lower edge at \<open>-200\<close>; the new image is put at \<open>y = 160\<close>, not at \<open>-40\<close>.
\<close>

theorem place_image_above_origin:
  "next_position \<lparr> shapes = [sample_high_image], assets = [] \<rparr> = (Num 100, Num 160)
   \<and> Max (bottom_of ` set (filter is_image [sample_high_image])) + 160 = - 40
   \<and> map_sum id placed_yPos
       (fst (place_image_js syntax_error ''data:image/png;base64,''
               (Some \<lparr> naturalWidth = 800, naturalHeight = 600 \<rparr>)
               400 ''seed-img-2'' ''asset-1'' None None \<lparr> shapes = [sample_high_image], assets = [] \<rparr>))
       = Inr 160"
  by (simp add: next_position_def place_image_js_def sample_high_image_def is_image_def
        bottom_of_def Let_def createAssets_def createShape_def js_gt_def)

section \<open>Properties of place\_evolved\_image\<close>

lemma sample_images: "sort_key shape_y (filter is_image (shapes sample_editor)) = [sample_image]"
  by (simp add: sample_editor_def sample_page_def sample_frame_def sample_image_def
        sample_note_def is_image_def)

lemma sample_find:
  "find (\<lambda>s. shape_id s = ''shape:seed-img-1'') (filter is_image (shapes sample_editor))
     = Some sample_image"
  by (simp add: sample_editor_def sample_page_def sample_frame_def sample_image_def
        sample_note_def is_image_def)

lemma evolved_numbers:
  fixes x y w h :: real and gap :: int and nw nh :: nat
  assumes x: "\<bar>x\<bar> \<le> 2 ^ 50" and y: "\<bar>y\<bar> \<le> 2 ^ 50"
    and w: "0 \<le> w" "w \<le> 2 ^ 50" and h: "0 \<le> h" "h \<le> 2 ^ 50"
    and gap: "\<bar>gap\<bar> \<le> 2 ^ 50" and nw: "0 < nw" and nh: "real nh \<le> 2 ^ 50"
    and X: "X = binary64 (binary64 (x + w) + of_int gap)"
    and H: "H = of_int (round (binary64 (real nh * binary64 (w / real nw))))"
  shows "js_add (Num x) (Num w) = Num (binary64 (x + w))"
    and "to_number (of_int gap) = Num (of_int gap)"
    and "js_add (Num (binary64 (x + w))) (Num (of_int gap)) = Num X"
    and "js_div (Num w) (Num (real nw)) = Num (binary64 (w / real nw))"
    and "js_mul (Num (real nh)) (Num (binary64 (w / real nw)))
           = Num (binary64 (real nh * binary64 (w / real nw)))"
    and "js_div (Num h) (Num 2) = Num (binary64 (h / 2))"
    and "js_add (Num y) (Num (binary64 (h / 2))) = Num (binary64 (y + binary64 (h / 2)))"
    and "to_number (of_int (gap - 20)) = Num (of_int gap - 20)"
    and "to_number (of_int gap - 20) = Num (of_int gap - 20)"
    and "js_sub (Num X) (Num 60) = Num (binary64 (X - 60))"
    and "js_sub (Num y) (Num 80) = Num (binary64 (y - 80))"
    and "js_add (Num w) (Num 120) = Num (binary64 (w + 120))"
    and "js_add (Num H) (Num 80) = Num (binary64 (H + 80))"
    and "js_add (Num (binary64 (H + 80))) (Num 60) = Num (binary64 (binary64 (H + 80) + 60))"
    and "js_div (Num w) (Num 2) = Num (binary64 (w / 2))"
    and "js_add (Num X) (Num (binary64 (w / 2))) = Num (binary64 (X + binary64 (w / 2)))"
    and "js_add (Num (binary64 (y - 80))) (Num 8) = Num (binary64 (binary64 (y - 80) + 8))"
    and "\<bar>X\<bar> \<le> 2 ^ 52" and "\<bar>H\<bar> \<le> 2 ^ 101"
proof -
  show "js_add (Num x) (Num w) = Num (binary64 (x + w))"
    using x w by (intro js_add_Num) (simp; linarith)
  have b1: "\<bar>binary64 (x + w)\<bar> \<le> 2 ^ 51"
    using x w by (intro binary64_abs_pow) (simp; linarith)
  show "to_number (of_int gap) = Num (of_int gap)"
    using gap by (intro to_number_int) (simp; linarith)
  have rg: "\<bar>real_of_int gap\<bar> \<le> 2 ^ 50"
    using gap by (metis of_int_abs of_int_le_iff of_int_numeral of_int_power)
  show "js_add (Num (binary64 (x + w))) (Num (of_int gap)) = Num X"
    unfolding X using b1 rg by (intro js_add_Num) (simp; linarith)
  show bX: "\<bar>X\<bar> \<le> 2 ^ 52"
    unfolding X using b1 rg by (intro binary64_abs_pow) (simp; linarith)
  have nw1: "1 \<le> real nw" using nw by simp
  have q: "\<bar>w / real nw\<bar> \<le> 2 ^ 50"
  proof -
    have "w / real nw \<le> w / 1" using w(1) nw1 by (intro divide_left_mono) simp_all
    moreover have "0 \<le> w / real nw" using w(1) by simp
    ultimately show ?thesis using w(2) by simp
  qed
  show "js_div (Num w) (Num (real nw)) = Num (binary64 (w / real nw))"
    using nw q by (intro js_div_Num) simp_all
  have bs: "\<bar>binary64 (w / real nw)\<bar> \<le> 2 ^ 50"
    using q by (rule binary64_abs_pow)
  have p: "\<bar>real nh * binary64 (w / real nw)\<bar> \<le> 2 ^ 100"
  proof -
    have "\<bar>real nh * binary64 (w / real nw)\<bar> = real nh * \<bar>binary64 (w / real nw)\<bar>"
      by (simp add: abs_mult)
    also have "\<dots> \<le> 2 ^ 50 * 2 ^ 50"
      using nh bs by (intro mult_mono) simp_all
    finally show ?thesis by simp
  qed
  show "js_mul (Num (real nh)) (Num (binary64 (w / real nw)))
             = Num (binary64 (real nh * binary64 (w / real nw)))"
    using p by (intro js_mul_Num) simp
  have bp: "\<bar>binary64 (real nh * binary64 (w / real nw))\<bar> \<le> 2 ^ 100"
    using p by (rule binary64_abs_pow)
  show bH: "\<bar>H\<bar> \<le> 2 ^ 101"
    unfolding H using round_bound [OF bp] by simp
  show "js_div (Num h) (Num 2) = Num (binary64 (h / 2))"
    using h by (intro js_div_Num) simp_all
  have bh2: "\<bar>binary64 (h / 2)\<bar> \<le> 2 ^ 50"
    using h by (intro binary64_abs_pow) simp
  show "js_add (Num y) (Num (binary64 (h / 2))) = Num (binary64 (y + binary64 (h / 2)))"
    using y bh2 by (intro js_add_Num) (simp; linarith)
  have "to_number (of_int (gap - 20)) = Num (of_int (gap - 20))"
    using gap by (intro to_number_int) (simp; linarith)
  then show "to_number (of_int (gap - 20)) = Num (of_int gap - 20)"
    and "to_number (of_int gap - 20) = Num (of_int gap - 20)" by simp_all
  show "js_sub (Num X) (Num 60) = Num (binary64 (X - 60))"
    using bX by (intro js_sub_Num) (simp; linarith)
  show "js_sub (Num y) (Num 80) = Num (binary64 (y - 80))"
    using y by (intro js_sub_Num) (simp; linarith)
  show "js_add (Num w) (Num 120) = Num (binary64 (w + 120))"
    using w by (intro js_add_Num) (simp; linarith)
  show "js_add (Num H) (Num 80) = Num (binary64 (H + 80))"
    using bH by (intro js_add_Num) (simp; linarith)
  have bh80: "\<bar>binary64 (H + 80)\<bar> \<le> 2 ^ 102"
    using bH by (intro binary64_abs_pow) (simp; linarith)
  show "js_add (Num (binary64 (H + 80))) (Num 60) = Num (binary64 (binary64 (H + 80) + 60))"
    using bh80 by (intro js_add_Num) (simp; linarith)
  show "js_div (Num w) (Num 2) = Num (binary64 (w / 2))"
    using w by (intro js_div_Num) simp_all
  have bw2: "\<bar>binary64 (w / 2)\<bar> \<le> 2 ^ 50"
    using w by (intro binary64_abs_pow) simp
  show "js_add (Num X) (Num (binary64 (w / 2))) = Num (binary64 (X + binary64 (w / 2)))"
    using bX bw2 by (intro js_add_Num) (simp; linarith)
  have by80: "\<bar>binary64 (y - 80)\<bar> \<le> 2 ^ 51"
    using y by (intro binary64_abs_pow) (simp; linarith)
  show "js_add (Num (binary64 (y - 80))) (Num 8) = Num (binary64 (binary64 (y - 80) + 8))"
    using by80 by (intro js_add_Num) (simp; linarith)
qed

lemma evolved_shapes:
  assumes safe: "splice_safe oid"
    and found: "find (\<lambda>s. shape_id s = oid) (filter is_image (shapes ed)) = Some orig"
    and m: "moderate orig" and gap: "\<bar>gap\<bar> \<le> 2 ^ 50"
    and nw: "0 < naturalWidth img" and nh: "real (naturalHeight img) \<le> 2 ^ 50"
    and out: "place_evolved_image_js other url (Some img) oid it cn gap r1 r2 ed = (res, ed')"
    and n: "n = shapes ed' ! length (shapes ed)"
    and a: "a = shapes ed' ! (length (shapes ed) + 1)"
    and f: "f = shapes ed' ! (length (shapes ed) + 2)"
  shows "length (shapes ed') = length (shapes ed) + 4"
    and "take (length (shapes ed)) (shapes ed') = shapes ed"
    and "is_image n"
    and "shape_x n = binary64 (binary64 (shape_x orig + props_w (props orig)) + of_int gap)"
    and "shape_y n = shape_y orig"
    and "props_w (props n) = props_w (props orig)"
    and "props_h (props n)
           = of_int (round (binary64 (real (naturalHeight img)
                * binary64 (props_w (props orig) / real (naturalWidth img)))))"
    and "res = Inr (Evolved \<lparr> newShapeId = shape_id n, newX = shape_x n, newY = shape_y n,
                                   displayW = props_w (props n), displayH = props_h (props n) \<rparr>)"
    and "shape_x a = binary64 (shape_x orig + props_w (props orig))"
    and "shape_y a = binary64 (shape_y orig + binary64 (props_h (props orig) / 2))"
    and "props a = ArrowProps (0, 0) (of_int gap - 20, 0) ''grey'' ''arrow''"
    and "region_of f = frame_region64 60 80 (region_of n)"
proof -
  from m have b: "\<bar>shape_x orig\<bar> \<le> 2 ^ 50" "\<bar>shape_y orig\<bar> \<le> 2 ^ 50"
    "0 \<le> props_w (props orig)" "props_w (props orig) \<le> 2 ^ 50"
    "0 \<le> props_h (props orig)" "props_h (props orig) \<le> 2 ^ 50"
    by (simp_all add: moderate_def)
  note nums = evolved_numbers [OF b gap nw nh refl refl]
  have c: "js_mul (Num 60) (Num 2) = Num 120" by simp
  show "length (shapes ed') = length (shapes ed) + 4"
    and "take (length (shapes ed)) (shapes ed') = shapes ed"
    and "is_image n"
    and "shape_x n = binary64 (binary64 (shape_x orig + props_w (props orig)) + of_int gap)"
    and "shape_y n = shape_y orig"
    and "props_w (props n) = props_w (props orig)"
    and "props_h (props n)
           = of_int (round (binary64 (real (naturalHeight img)
                * binary64 (props_w (props orig) / real (naturalWidth img)))))"
    and "res = Inr (Evolved \<lparr> newShapeId = shape_id n, newX = shape_x n, newY = shape_y n,
                                   displayW = props_w (props n), displayH = props_h (props n) \<rparr>)"
    and "shape_x a = binary64 (shape_x orig + props_w (props orig))"
    and "shape_y a = binary64 (shape_y orig + binary64 (props_h (props orig) / 2))"
    and "props a = ArrowProps (0, 0) (of_int gap - 20, 0) ''grey'' ''arrow''"
    and "region_of f = frame_region64 60 80 (region_of n)"
    using safe found out [symmetric]
    unfolding n a f
    by (simp_all add: place_evolved_image_js_def Let_def createShape_def createAssets_def
          is_image_def region_of_def frame_region64_def nth_append nums c
          del: js_add.simps js_mul.simps js_div.simps)
qed

text \<open>
  An original whose id holds a quote: the text sent is no program, and the reply carries
  no not-found text.
\<close>

lemma evolved_quote_in_id:
  "find (\<lambda>s. shape_id s = ''shape:it'' @ [CHR 0x27] @ ''s'') (filter is_image (shapes sample_editor))
     = None \<and>
   place_evolved_image_js syntax_error ''data:image/png;base64,'' None
       (''shape:it'' @ [CHR 0x27] @ ''s'') 1 1 120 ''k3x9qa'' ''p0m2zz'' sample_editor
     = (Inl SyntaxError, sample_editor) \<and>
   map_sum id success
     (place_evolved_image (Some ''data:image/png;base64,'') (served sample_editor) syntax_error None
        (''shape:it'' @ [CHR 0x27] @ ''s'') 1 1 120 ''k3x9qa'' ''p0m2zz'') = Inr (Some False) \<and>
   map_sum id result
     (place_evolved_image (Some ''data:image/png;base64,'') (served sample_editor) syntax_error None
        (''shape:it'' @ [CHR 0x27] @ ''s'') 1 1 120 ''k3x9qa'' ''p0m2zz'') = Inr None"
  by (simp add: place_evolved_image_js_def place_evolved_image_def eval_code_def served_def
        syntax_error_def sample_editor_def sample_page_def sample_frame_def sample_image_def
        sample_note_def is_image_def)

text \<open>
  C9. When the id of the original is safe between quotes and no image of the page has
  it, the snippet returns the text \<open>original not found: \<close> followed by the id and leaves
  the editor as it was; with a readable image file and a remote that runs the snippet,
  place\_evolved\_image returns the reply that carries this text.
\<close>

theorem evolved_original_not_found:
  assumes "splice_safe oid"
    and "\<forall>s \<in> set (shapes ed). is_image s \<longrightarrow> shape_id s \<noteq> oid"
  shows "place_evolved_image_js other url loaded oid it cn gap r1 r2 ed
           = (Inr (NotFound (''original not found: '' @ oid)), ed)
     \<and> place_evolved_image (Some url) (served ed) other loaded oid it cn gap r1 r2
           = Inr \<lparr> success = Some True,
                   result = Some (NotFound (''original not found: '' @ oid)), error = None \<rparr>"
proof -
  have nf: "find (\<lambda>s. shape_id s = oid) (filter is_image (shapes ed)) = None"
    using assms(2) by (auto simp: find_None_iff)
  then have js: "place_evolved_image_js other url loaded oid it cn gap r1 r2 ed
           = (Inr (NotFound (''original not found: '' @ oid)), ed)"
    using assms(1) by (simp add: place_evolved_image_js_def Let_def)
  then show ?thesis
    by (simp add: place_evolved_image_def eval_code_def served_def)
qed

theorem evolved_original_not_found_witness:
  "splice_safe ''shape:missing'' \<and>
   place_evolved_image_js syntax_error ''data:image/png;base64,'' None ''shape:missing'' 1 1 120
       ''k3x9qa'' ''p0m2zz'' sample_editor
     = (Inr (NotFound ''original not found: shape:missing''), sample_editor)
   \<and> place_evolved_image (Some ''data:image/png;base64,'') (served sample_editor) syntax_error None
         ''shape:missing'' 1 1 120 ''k3x9qa'' ''p0m2zz''
     = Inr \<lparr> success = Some True,
             result = Some (NotFound ''original not found: shape:missing''), error = None \<rparr>"
proof -
  have s: "splice_safe ''shape:missing''" by simp
  have h: "\<forall>s \<in> set (shapes sample_editor). is_image s \<longrightarrow> shape_id s \<noteq> ''shape:missing''"
    by (simp add: sample_editor_def sample_page_def sample_frame_def sample_image_def
          sample_note_def is_image_def)
  from evolved_original_not_found [OF s h] s show ?thesis by simp
qed

section \<open>Properties of the transport\<close>

lemma caught_failures:
  "is_URLError (urlopen_raises f) \<longleftrightarrow> f \<in> {Refused, UnknownHost, ConnectTimeout, BadStatus}"
  by (cases f) simp_all

text \<open>
  A timeout while waiting for the reply is not a \<^verbatim>\<open>URLError\<close>: eval\_code and
  health\_check raise.
\<close>

lemma read_timeout_raises:
  "eval_code (failing ReadTimeout) ''return 1''
     = (Inl (TimeoutError ''timed out'') :: py_exception + json outcome) \<and>
   health_check (Raised (urlopen_raises ReadTimeout)) = Inl (TimeoutError ''timed out'')"
  by (simp add: eval_code_def health_check_def failing_def)

text \<open>
  C8. When the connection is refused, the host is unknown, the connection times out or
  the remote answers with an error status, eval\_code returns the dictionary with
  \<open>success\<close> false and the message, and health\_check the dictionary with status
  \<open>error\<close> and the message; neither raises. When the reply times out, the connection
  is dropped or the reply is not JSON, both raise. Of the exceptions that leave the
  \<^verbatim>\<open>try\<close> block, those that are a \<^verbatim>\<open>URLError\<close> are turned into the dictionary, and the
  others are raised.
\<close>

theorem transport_failure_reported:
  "(f \<in> {Refused, UnknownHost, ConnectTimeout, BadStatus} \<longrightarrow>
      eval_code (failing f) code
        = Inr \<lparr> success = Some False, result = None,
                error = Some (py_str (urlopen_raises f)) \<rparr> \<and>
      health_check (Raised (urlopen_raises f))
        = Inr (JObject [(''status'', JString ''error''),
                        (''error'', JString (py_str (urlopen_raises f)))])) \<and>
   (f \<in> {ReadTimeout, Disconnected, BadReply} \<longrightarrow>
      eval_code (failing f) code = Inl (urlopen_raises f) \<and>
      health_check (Raised (urlopen_raises f)) = Inl (urlopen_raises f)) \<and>
   (post code = Raised ex \<longrightarrow>
      eval_code post code
        = (if is_URLError ex
           then Inr \<lparr> success = Some False, result = None, error = Some (py_str ex) \<rparr>
           else Inl ex)) \<and>
   (get = Raised ex \<longrightarrow>
      health_check get
        = (if is_URLError ex
           then Inr (JObject [(''status'', JString ''error''), (''error'', JString (py_str ex))])
           else Inl ex))"
  by (cases f) (simp_all add: eval_code_def health_check_def failing_def)

theorem transport_failure_reported_witness:
  "eval_code (failing Refused) ''return 1''
     = Inr (\<lparr> success = Some False, result = None,
              error = Some ''<urlopen error [Errno 111] Connection refused>'' \<rparr> :: nat outcome) \<and>
   health_check (Raised (urlopen_raises Refused))
     = Inr (JObject [(''status'', JString ''error''),
                     (''error'', JString ''<urlopen error [Errno 111] Connection refused>'')]) \<and>
   eval_code (unreachable ''<urlopen error timed out>'') ''return 1''
     = Inr (\<lparr> success = Some False, result = None,
              error = Some ''<urlopen error timed out>'' \<rparr> :: nat outcome) \<and>
   health_check (Raised (HTTPError ''HTTP Error 503: Service Unavailable''))
     = Inr (JObject [(''status'', JString ''error''),
                     (''error'', JString ''HTTP Error 503: Service Unavailable'')]) \<and>
   eval_code (failing Disconnected) ''return 1''
     = (Inl (ConnectionError ''Remote end closed connection without response'')
          :: py_exception + nat outcome)"
  using transport_failure_reported
    [where f = Refused and code = "''return 1''"
       and post = "unreachable ''<urlopen error timed out>'' :: string \<Rightarrow> nat outcome fetched"
       and ex = "URLError ''<urlopen error timed out>''"
       and get = "Raised (URLError ''<urlopen error timed out>'')"]
    transport_failure_reported
    [where f = Disconnected and code = "''return 1''"
       and post = "failing Disconnected :: string \<Rightarrow> nat outcome fetched"
       and ex = "HTTPError ''HTTP Error 503: Service Unavailable''"
       and get = "Raised (HTTPError ''HTTP Error 503: Service Unavailable'')"]
  by (auto simp add: unreachable_def failing_def)

text \<open>
  C10. When the reply has \<open>success\<close> false or missing, get\_images, detect\_annotations and
  get\_latest\_images return the empty list, which is also what they return when the
  remote runs their snippet on an empty page.
\<close>

theorem failed_query_is_empty:
  "((\<forall>code. \<exists>r. post1 code = Replied r \<and> success r \<noteq> Some True) \<longrightarrow> get_images post1 = Inr []) \<and>
   ((\<forall>code. \<exists>r. post2 code = Replied r \<and> success r \<noteq> Some True)
        \<longrightarrow> detect_annotations bounds post2 = Inr []) \<and>
   ((\<forall>code. \<exists>r. post3 code = Replied r \<and> success r \<noteq> Some True)
        \<longrightarrow> get_latest_images post3 = Inr []) \<and>
   (shapes ed = [] \<longrightarrow>
      get_images (served ed) = Inr [] \<and> detect_annotations bounds (served ed) = Inr [] \<and>
      get_latest_images (served ed) = Inr [])"
proof (intro conjI impI)
  assume h: "\<forall>code. \<exists>r. post1 code = Replied r \<and> success r \<noteq> Some True"
  then obtain r where "post1 (\<lambda>ed. (Inr (get_images_js ed), ed)) = Replied r" "success r \<noteq> Some True"
    by blast
  then show "get_images post1 = Inr []"
    by (simp add: get_images_def eval_code_def)
next
  assume h: "\<forall>code. \<exists>r. post2 code = Replied r \<and> success r \<noteq> Some True"
  then obtain r where
    "post2 (\<lambda>ed. (Inr (detect_annotations_js bounds (shapes ed)), ed)) = Replied r"
    "success r \<noteq> Some True"
    by blast
  then show "detect_annotations bounds post2 = Inr []"
    by (simp add: detect_annotations_def eval_code_def)
next
  assume h: "\<forall>code. \<exists>r. post3 code = Replied r \<and> success r \<noteq> Some True"
  then obtain r where "post3 (\<lambda>ed. (get_latest_images_js ed, ed)) = Replied r"
    "success r \<noteq> Some True"
    by blast
  then show "get_latest_images post3 = Inr []"
    by (simp add: get_latest_images_def eval_code_def)
next
  assume "shapes ed = []"
  then show "get_images (served ed) = Inr []"
    by (simp add: get_images_def eval_code_def served_def get_images_js_def)
next
  assume "shapes ed = []"
  then show "detect_annotations bounds (served ed) = Inr []"
    by (simp add: detect_annotations_def eval_code_def served_def detect_annotations_js_def)
next
  assume "shapes ed = []"
  then show "get_latest_images (served ed) = Inr []"
    by (simp add: get_latest_images_def eval_code_def served_def get_latest_images_js_def
          object_values_def)
qed

theorem failed_query_is_empty_witness:
  "get_images (\<lambda>code. Replied \<lparr> success = Some False, result = None, error = Some ''boom'' \<rparr>) = Inr []
   \<and> detect_annotations sample_bounds
        (\<lambda>code. Replied \<lparr> success = None, result = None, error = None \<rparr>) = Inr []
   \<and> get_latest_images
        (\<lambda>code. Replied \<lparr> success = Some False, result = None, error = Some ''boom'' \<rparr>) = Inr []
   \<and> get_images (served \<lparr> shapes = [], assets = [] \<rparr>) = Inr []
   \<and> detect_annotations sample_bounds (served \<lparr> shapes = [], assets = [] \<rparr>) = Inr []
   \<and> get_latest_images (served \<lparr> shapes = [], assets = [] \<rparr>) = Inr []"
  using failed_query_is_empty
    [of "\<lambda>code. Replied \<lparr> success = Some False, result = None, error = Some ''boom'' \<rparr>"
        "\<lambda>code. Replied \<lparr> success = None, result = None, error = None \<rparr>"
        sample_bounds
        "\<lambda>code. Replied \<lparr> success = Some False, result = None, error = Some ''boom'' \<rparr>"
        "\<lparr> shapes = [], assets = [] \<rparr>"]
  by simp

end
